theory Spec2Isabelle
  imports Main "HOL-Library.Multiset"
begin

section \<open>NCBI GenBank retriever: data model\<close>

text \<open>
  The script \<^verbatim>\<open>s28192_2025-2.py\<close> resolves a taxonomic identifier, searches the
  nucleotide database, fetches one batch of records, keeps those whose sequence length lies
  in a window, writes the kept rows to a CSV file and plots them.

  A Python \<^verbatim>\<open>str\<close> is a \<^typ>\<open>string\<close> (code points below 256), a Python \<^verbatim>\<open>int\<close> is an
  \<^typ>\<open>int\<close>. A \<^verbatim>\<open>SeqRecord\<close> is reduced to the three attributes the script reads.
\<close>

record seq_record =
  sr_id :: string
  sr_seq :: string
  sr_description :: string

type_synonym row = "string \<times> int \<times> string"

text \<open>A \<^verbatim>\<open>pandas.DataFrame\<close>: the column labels and the rows, in order.\<close>

record dataframe =
  df_columns :: "string list"
  df_rows :: "row list"

text \<open>What \<^verbatim>\<open>plt.plot\<close> and the labelling calls put on the current figure.\<close>

record figure =
  fig_x :: "string list"
  fig_y :: "int list"
  fig_marker :: string
  fig_xlabel :: string
  fig_ylabel :: string
  fig_title :: string

text \<open>
  A file is kept by its logical content: a CSV file is its header row and its data rows
  (\<^verbatim>\<open>to_csv(index=False)\<close> writes the column labels, then one line per row and no index
  column), an image file is the figure that was saved.
\<close>

datatype file_content = Csv "string list" "row list" | Png figure

text \<open>Exceptions are values. \<^verbatim>\<open>RemoteError\<close> stands for whatever the Entrez client raises.\<close>

datatype error =
  RemoteError string
  | IndexError
  | KeyError string
  | ValueError string
  | OSError string
  | DanglingReference nat

text \<open>The lines the script prints, one constructor for each \<^verbatim>\<open>print\<close> and \<^verbatim>\<open>input\<close> prompt.\<close>

datatype msg =
  Prompt string
  | Searching string
  | Organism string string
  | NoRecordsFor string
  | Found int
  | ErrorSearching string error
  | NoSearchResults
  | ErrorFetching error
  | NoRecordsExiting
  | Fetching
  | SavedCsv string
  | SavedPlot string

text \<open>The calls made to the remote service, in the order they are issued.\<close>

datatype request =
  TaxonomyEfetch string
  | NucleotideEsearch string
  | NucleotideEfetch string string int int

text \<open>
  The remote service is a parameter of the model: what \<^verbatim>\<open>Entrez.read(Entrez.efetch(...))\<close>
  on the taxonomy database gives for an identifier, what \<^verbatim>\<open>Entrez.read(Entrez.esearch(...))\<close>
  gives for a search term, and what \<^verbatim>\<open>list(SeqIO.parse(Entrez.efetch(...)))\<close> gives for a
  session token, query key, \<^verbatim>\<open>retstart\<close> and \<^verbatim>\<open>retmax\<close>. Each of them may raise.
\<close>

type_synonym pydict = "string \<rightharpoonup> string"

record entrez =
  taxonomy_reply :: "string \<Rightarrow> error + pydict list"
  esearch_reply :: "string \<Rightarrow> error + pydict"
  efetch_reply :: "string \<Rightarrow> string \<Rightarrow> int \<Rightarrow> int \<Rightarrow> error + seq_record list"

text \<open>
  Whether a write succeeds is a parameter of the model as well: for a path, the exception
  that \<^verbatim>\<open>df.to_csv\<close> and \<^verbatim>\<open>plt.savefig\<close> raise there (a missing directory, an empty name,
  an unknown image format), or \<open>None\<close> when the file can be written. A write that raises
  leaves the files as they were.
\<close>

record storage =
  to_csv_error :: "string \<Rightarrow> error option"
  savefig_error :: "string \<Rightarrow> error option"

text \<open>
  Everything outside the interpreter's local variables: the console, the files on disk,
  the \<^verbatim>\<open>DataFrame\<close> objects (a reference is an index into \<open>frames\<close>), the log of
  remote calls, the globals of the \<^verbatim>\<open>Entrez\<close> module and the number of open figures.
\<close>

record world =
  console :: "msg list"
  files :: "string \<rightharpoonup> file_content"
  frames :: "dataframe list"
  requests :: "request list"
  entrez_email :: "string option"
  entrez_api_key :: "string option"
  entrez_tool :: "string option"
  open_figures :: nat

text \<open>
  The attributes of an \<^verbatim>\<open>NCBIRetriever\<close> instance; \<open>None\<close> is an attribute that has not
  been set, which is what \<^verbatim>\<open>hasattr\<close> tests.
\<close>

record retriever =
  webenv :: "string option"
  query_key :: "string option"
  count_attr :: "int option"

definition print :: "msg \<Rightarrow> world \<Rightarrow> world" where
  "print m w = w\<lparr>console := console w @ [m]\<rparr>"

definition send :: "request \<Rightarrow> world \<Rightarrow> world" where
  "send q w = w\<lparr>requests := requests w @ [q]\<rparr>"

section \<open>The builtin \<^verbatim>\<open>int\<close> on a string\<close>

text \<open>
  \<^verbatim>\<open>int(s)\<close> in base 10: surrounding whitespace is dropped, one sign is allowed, then come
  decimal digits, where a single underscore may stand between two digits. Anything else
  raises \<^verbatim>\<open>ValueError\<close>, here \<open>None\<close>, and so does a numeral of more than 4300 digits
  (the interpreter's default limit).

  The whitespace \<^verbatim>\<open>int\<close> drops: the ASCII blanks 9 to 13 and 32, and the two blanks
  above 127 among the code points below 256, which the interpreter turns into spaces
  first. The separators 28 to 31 are not dropped.
\<close>

definition is_space :: "char \<Rightarrow> bool" where
  "is_space c = ((of_char c :: nat) \<in> set [9, 10, 11, 12, 13, 32, 133, 160])"

definition is_digit :: "char \<Rightarrow> bool" where
  "is_digit c = (48 \<le> (of_char c :: nat) \<and> (of_char c :: nat) \<le> 57)"

definition digit_val :: "char \<Rightarrow> nat" where
  "digit_val c = (of_char c :: nat) - 48"

fun parse_digits :: "string \<Rightarrow> nat \<Rightarrow> nat option" where
  "parse_digits [] acc = Some acc"
| "parse_digits (c # cs) acc =
     (if is_digit c then parse_digits cs (acc * 10 + digit_val c)
      else if c = CHR ''_'' then
        (case cs of
           [] \<Rightarrow> None
         | d # _ \<Rightarrow> if is_digit d then parse_digits cs acc else None)
      else None)"

definition max_str_digits :: nat where
  "max_str_digits = 4300"

definition parse_unsigned :: "string \<Rightarrow> nat option" where
  "parse_unsigned s =
     (case s of
        [] \<Rightarrow> None
      | c # _ \<Rightarrow>
          if is_digit c \<and> length (filter is_digit s) \<le> max_str_digits
          then parse_digits s 0 else None)"

definition strip :: "string \<Rightarrow> string" where
  "strip s = rev (dropWhile is_space (rev (dropWhile is_space s)))"

definition py_int :: "string \<Rightarrow> int option" where
  "py_int s =
     (case strip s of
        [] \<Rightarrow> None
      | c # cs \<Rightarrow>
          if c = CHR ''-'' then map_option (\<lambda>n. - int n) (parse_unsigned cs)
          else if c = CHR ''+'' then map_option int (parse_unsigned cs)
          else map_option int (parse_unsigned (c # cs)))"

section \<open>\<^verbatim>\<open>NCBIRetriever\<close>\<close>

text \<open>\<^verbatim>\<open>__init__\<close> sets three globals of the \<^verbatim>\<open>Entrez\<close> module and no attribute.\<close>

definition init :: "string \<Rightarrow> string \<Rightarrow> world \<Rightarrow> retriever \<times> world" where
  "init email api_key w =
     (\<lparr>webenv = None, query_key = None, count_attr = None\<rparr>,
      w\<lparr>entrez_email := Some email, entrez_api_key := Some api_key,
        entrez_tool := Some ''BioScriptEx10''\<rparr>)"

text \<open>
  The body of the \<^verbatim>\<open>try\<close> block of \<^verbatim>\<open>search_taxid\<close>. An exception leaves the block with
  the attributes and the output produced so far.
\<close>

definition search_try ::
  "entrez \<Rightarrow> retriever \<Rightarrow> string \<Rightarrow> world \<Rightarrow> (error + int option) \<times> retriever \<times> world" where
  "search_try ncbi self taxid w0 =
     (let w1 = send (TaxonomyEfetch taxid) w0 in
      case taxonomy_reply ncbi taxid of
        Inl e \<Rightarrow> (Inl e, self, w1)
      | Inr records \<Rightarrow>
          (case records of
             [] \<Rightarrow> (Inl IndexError, self, w1)
           | r0 # _ \<Rightarrow>
               (case r0 ''ScientificName'' of
                  None \<Rightarrow> (Inl (KeyError ''ScientificName''), self, w1)
                | Some organism_name \<Rightarrow>
                    (let w2 = print (Organism organism_name taxid) w1;
                         search_term = ''txid'' @ taxid @ ''[Organism]'';
                         w3 = send (NucleotideEsearch search_term) w2
                     in case esearch_reply ncbi search_term of
                          Inl e \<Rightarrow> (Inl e, self, w3)
                        | Inr search_results \<Rightarrow>
                            (case search_results ''Count'' of
                               None \<Rightarrow> (Inl (KeyError ''Count''), self, w3)
                             | Some c \<Rightarrow>
                                 (case py_int c of
                                    None \<Rightarrow> (Inl (ValueError c), self, w3)
                                  | Some cnt \<Rightarrow>
                                      if cnt = 0
                                      then (Inr None, self, print (NoRecordsFor organism_name) w3)
                                      else
                                        (let w4 = print (Found cnt) w3 in
                                         case search_results ''WebEnv'' of
                                           None \<Rightarrow> (Inl (KeyError ''WebEnv''), self, w4)
                                         | Some we \<Rightarrow>
                                             (let self1 = self\<lparr>webenv := Some we\<rparr> in
                                              case search_results ''QueryKey'' of
                                                None \<Rightarrow> (Inl (KeyError ''QueryKey''), self1, w4)
                                              | Some qk \<Rightarrow>
                                                  (Inr (Some cnt),
                                                   self1\<lparr>query_key := Some qk,
                                                     count_attr := Some cnt\<rparr>,
                                                   w4)))))))))"

text \<open>\<^verbatim>\<open>search_taxid\<close>: the \<^verbatim>\<open>except Exception\<close> clause turns every exception into \<open>None\<close>.\<close>

definition search_taxid ::
  "entrez \<Rightarrow> retriever \<Rightarrow> string \<Rightarrow> world \<Rightarrow> (error + int option) \<times> retriever \<times> world" where
  "search_taxid ncbi self taxid w =
     (case search_try ncbi self taxid (print (Searching taxid) w) of
        (Inl e, self', w') \<Rightarrow> (Inr None, self', print (ErrorSearching taxid e) w')
      | (Inr r, self', w') \<Rightarrow> (Inr r, self', w'))"

text \<open>
  \<^verbatim>\<open>fetch_records\<close>: without both session attributes it prints a warning and returns the
  empty list; otherwise it issues one request with \<^verbatim>\<open>retmax = min(max_records, 500)\<close>.
\<close>

definition fetch_records ::
  "entrez \<Rightarrow> retriever \<Rightarrow> int \<Rightarrow> int \<Rightarrow> world \<Rightarrow> (error + seq_record list) \<times> world" where
  "fetch_records ncbi self start max_records w =
     (if webenv self = None \<or> query_key self = None
      then (Inr [], print NoSearchResults w)
      else
        (let batch_size = min max_records 500;
             we = the (webenv self);
             qk = the (query_key self);
             w1 = send (NucleotideEfetch we qk start batch_size) w
         in case efetch_reply ncbi we qk start batch_size of
              Inl e \<Rightarrow> (Inr [], print (ErrorFetching e) w1)
            | Inr recs \<Rightarrow> (Inr recs, w1)))"

section \<open>\<^verbatim>\<open>save_to_csv\<close> and \<^verbatim>\<open>plot_lengths\<close>\<close>

text \<open>The \<^verbatim>\<open>for\<close> loop of \<^verbatim>\<open>save_to_csv\<close>, with the list \<^verbatim>\<open>data\<close> as accumulator.\<close>

fun collect :: "seq_record list \<Rightarrow> int \<Rightarrow> int \<Rightarrow> row list \<Rightarrow> row list" where
  "collect [] min_len max_len data = data"
| "collect (rec # recs) min_len max_len data =
     (let len = int (length (sr_seq rec)) in
      if min_len \<le> len \<and> len \<le> max_len
      then collect recs min_len max_len (data @ [(sr_id rec, len, sr_description rec)])
      else collect recs min_len max_len data)"

text \<open>
  \<^verbatim>\<open>save_to_csv\<close> builds the frame (a new object), writes it to \<open>filename\<close> and returns
  the reference to it. When \<^verbatim>\<open>to_csv\<close> raises, the exception leaves the function: the
  frame has been built, no file is written and nothing is returned.
\<close>

definition save_to_csv ::
  "storage \<Rightarrow> seq_record list \<Rightarrow> string \<Rightarrow> int \<Rightarrow> int \<Rightarrow> world \<Rightarrow> (error + nat) \<times> world" where
  "save_to_csv disk records filename min_len max_len w =
     (let data = collect records min_len max_len [];
          df = \<lparr>df_columns = [''Accession'', ''Length'', ''Description''], df_rows = data\<rparr>;
          ref = length (frames w);
          w1 = w\<lparr>frames := frames w @ [df]\<rparr>
      in case to_csv_error disk filename of
           Some e \<Rightarrow> (Inl e, w1)
         | None \<Rightarrow>
             (Inr ref,
              w1\<lparr>files := (files w1)(filename \<mapsto> Csv (df_columns df) (df_rows df))\<rparr>))"

text \<open>
  \<^verbatim>\<open>sort_values(by="Length", ascending=False)\<close> returns a new frame: pandas reverses the
  column, sorts it ascending and reverses the result. The sort is taken to be stable, so
  rows of equal length keep their order; pandas does not promise that, and nothing proved
  below depends on the order of such rows.
\<close>

definition sort_values_desc :: "row list \<Rightarrow> row list" where
  "sort_values_desc rows = rev (sort_key (\<lambda>r. fst (snd r)) (rev rows))"

text \<open>
  \<^verbatim>\<open>plot_lengths\<close>: the local name \<^verbatim>\<open>df\<close> is rebound to the sorted copy, a new object; the
  figure is opened, drawn from the copy, saved and closed. When \<^verbatim>\<open>savefig\<close> raises, the
  exception leaves the function before \<^verbatim>\<open>plt.close\<close>: the figure stays open and no file
  is written. A reference that names no object cannot arise in Python; the model answers
  it with an error.
\<close>

definition plot_lengths ::
  "storage \<Rightarrow> nat \<Rightarrow> string \<Rightarrow> world \<Rightarrow> (error + unit) \<times> world" where
  "plot_lengths disk df output_file w =
     (if df < length (frames w)
      then
        (let given = frames w ! df;
             sorted_df = given\<lparr>df_rows := sort_values_desc (df_rows given)\<rparr>;
             w1 = w\<lparr>frames := frames w @ [sorted_df]\<rparr>;
             w2 = w1\<lparr>open_figures := open_figures w1 + 1\<rparr>;
             fig = \<lparr>fig_x = map fst (df_rows sorted_df),
                    fig_y = map (\<lambda>r. fst (snd r)) (df_rows sorted_df),
                    fig_marker = ''o'',
                    fig_xlabel = ''GenBank Accession'',
                    fig_ylabel = ''Sequence Length'',
                    fig_title = ''Filtered Sequence Lengths''\<rparr>
         in case savefig_error disk output_file of
              Some e \<Rightarrow> (Inl e, w2)
            | None \<Rightarrow>
                (let w3 = w2\<lparr>files := (files w2)(output_file \<mapsto> Png fig)\<rparr>;
                     w4 = w3\<lparr>open_figures := open_figures w3 - 1\<rparr>
                 in (Inr (), w4)))
      else (Inl (DanglingReference df), w))"

section \<open>\<^verbatim>\<open>main\<close>\<close>

text \<open>
  The five answers typed at the prompts are the arguments. \<^verbatim>\<open>int(input(...))\<close> raises
  \<^verbatim>\<open>ValueError\<close> out of \<^verbatim>\<open>main\<close> on an answer that is no integer, and so does a write
  that fails: \<^verbatim>\<open>main\<close> catches nothing.
\<close>

definition main ::
  "entrez \<Rightarrow> storage \<Rightarrow> string \<Rightarrow> string \<Rightarrow> string \<Rightarrow> string \<Rightarrow> string \<Rightarrow> world \<Rightarrow>
     (error + unit) \<times> world" where
  "main ncbi disk email api_key taxid min_s max_s w0 =
     (let wa = print (Prompt ''Enter your email address for NCBI: '') w0;
          wb = print (Prompt ''Enter your NCBI API key: '') wa;
          wc = print (Prompt ''Enter taxonomic ID (taxid) of the organism: '') wb;
          wd = print (Prompt ''Enter minimum sequence length: '') wc
      in case py_int min_s of
           None \<Rightarrow> (Inl (ValueError min_s), wd)
         | Some min_len \<Rightarrow>
             (let we = print (Prompt ''Enter maximum sequence length: '') wd
              in case py_int max_s of
                   None \<Rightarrow> (Inl (ValueError max_s), we)
                 | Some max_len \<Rightarrow>
                     (case init email api_key we of
                        (retriever0, w1) \<Rightarrow>
                          (case search_taxid ncbi retriever0 taxid w1 of
                             (Inl e, retriever1, w2) \<Rightarrow> (Inl e, w2)
                           | (Inr cnt, retriever1, w2) \<Rightarrow>
                               if cnt = None \<or> cnt = Some 0
                               then (Inr (), print NoRecordsExiting w2)
                               else
                                 (case fetch_records ncbi retriever1 0 50 (print Fetching w2) of
                                    (Inl e, w3) \<Rightarrow> (Inl e, w3)
                                  | (Inr records, w3) \<Rightarrow>
                                      (let csv_file = ''taxid_'' @ taxid @ ''_filtered.csv'' in
                                       case save_to_csv disk records csv_file min_len max_len w3 of
                                         (Inl e, w4) \<Rightarrow> (Inl e, w4)
                                       | (Inr df, w4) \<Rightarrow>
                                           (let w5 = print (SavedCsv csv_file) w4;
                                                plot_file = ''taxid_'' @ taxid @ ''_plot.png''
                                            in case plot_lengths disk df plot_file w5 of
                                                 (Inl e, w6) \<Rightarrow> (Inl e, w6)
                                               | (Inr u, w6) \<Rightarrow>
                                                   (Inr (), print (SavedPlot plot_file) w6))))))))"

section \<open>Example data\<close>

text \<open>A world in which nothing has happened yet, and a retriever as \<^verbatim>\<open>__init__\<close> leaves it.\<close>

definition world0 :: world where
  "world0 =
     \<lparr>console = [], files = Map.empty, frames = [], requests = [],
      entrez_email = None, entrez_api_key = None, entrez_tool = None, open_figures = 0\<rparr>"

definition retriever0 :: retriever where
  "retriever0 = \<lparr>webenv = None, query_key = None, count_attr = None\<rparr>"

text \<open>Three records of lengths 200, 1500 and 800, and a service that finds and returns them.\<close>

definition rec200 :: seq_record where
  "rec200 = \<lparr>sr_id = ''AB000200.1'', sr_seq = replicate 200 CHR ''A'',
              sr_description = ''short record''\<rparr>"

definition rec1500 :: seq_record where
  "rec1500 = \<lparr>sr_id = ''AB001500.1'', sr_seq = replicate 1500 CHR ''C'',
               sr_description = ''long record''\<rparr>"

definition rec800 :: seq_record where
  "rec800 = \<lparr>sr_id = ''AB000800.1'', sr_seq = replicate 800 CHR ''G'',
              sr_description = ''medium record''\<rparr>"

definition three_records_service :: entrez where
  "three_records_service =
     \<lparr>taxonomy_reply = (\<lambda>taxid. Inr [[''ScientificName'' \<mapsto> ''Homo sapiens'']]),
      esearch_reply =
        (\<lambda>term. Inr [''Count'' \<mapsto> ''3'', ''WebEnv'' \<mapsto> ''MCID_1'', ''QueryKey'' \<mapsto> ''1'']),
      efetch_reply = (\<lambda>we qk start retmax. Inr [rec200, rec1500, rec800])\<rparr>"


definition negative_count_service :: entrez where
  "negative_count_service =
     three_records_service\<lparr>esearch_reply :=
       (\<lambda>term. Inr [''Count'' \<mapsto> ''-1'', ''WebEnv'' \<mapsto> ''MCID_1'', ''QueryKey'' \<mapsto> ''1''])\<rparr>"

text \<open>A disk on which every write succeeds, and one on which every write raises.\<close>

definition disk_ok :: storage where
  "disk_ok = \<lparr>to_csv_error = (\<lambda>path. None), savefig_error = (\<lambda>path. None)\<rparr>"

definition disk_read_only :: storage where
  "disk_read_only =
     \<lparr>to_csv_error = (\<lambda>path. Some (OSError path)),
      savefig_error = (\<lambda>path. Some (OSError path))\<rparr>"

section \<open>Notions the properties are stated with\<close>

text \<open>The triple a kept record is projected to, and the length window, inclusive at both ends.\<close>

definition row_of :: "seq_record \<Rightarrow> row" where
  "row_of rec = (sr_id rec, int (length (sr_seq rec)), sr_description rec)"

definition in_window :: "int \<Rightarrow> int \<Rightarrow> seq_record \<Rightarrow> bool" where
  "in_window lo hi rec = (lo \<le> int (length (sr_seq rec)) \<and> int (length (sr_seq rec)) \<le> hi)"

text \<open>
  The table as the specification describes it: the records whose length lies in the
  window, in their order, each as its triple, under the three column names.
\<close>

definition spec_table :: "seq_record list \<Rightarrow> int \<Rightarrow> int \<Rightarrow> dataframe" where
  "spec_table recs lo hi =
     \<lparr>df_columns = [''Accession'', ''Length'', ''Description''],
      df_rows = map row_of (filter (in_window lo hi) recs)\<rparr>"

text \<open>The fetch requests among the remote calls made so far.\<close>

fun is_fetch :: "request \<Rightarrow> bool" where
  "is_fetch (NucleotideEfetch we qk start retmax) = True"
| "is_fetch (TaxonomyEfetch taxid) = False"
| "is_fetch (NucleotideEsearch term) = False"

definition fetch_calls :: "world \<Rightarrow> request list" where
  "fetch_calls w = filter is_fetch (requests w)"

section \<open>Filter and tabulate\<close>

lemma collect_eq:
  "collect recs lo hi data = data @ map row_of (filter (in_window lo hi) recs)"
  by (induction recs arbitrary: data) (simp_all add: row_of_def in_window_def Let_def)

lemma spec_table_simps:
  "df_columns (spec_table recs lo hi) = [''Accession'', ''Length'', ''Description'']"
  "df_rows (spec_table recs lo hi) = map row_of (filter (in_window lo hi) recs)"
  by (simp_all add: spec_table_def)

lemma spec_table_rows:
  "df_rows (spec_table recs lo hi) =
     map (\<lambda>r. (sr_id r, int (length (sr_seq r)), sr_description r))
       (filter (\<lambda>r. lo \<le> int (length (sr_seq r)) \<and> int (length (sr_seq r)) \<le> hi) recs)"
  by (simp add: spec_table_def row_of_def [abs_def] in_window_def [abs_def])

text \<open>The two ways out of \<^verbatim>\<open>save_to_csv\<close>, and the table it builds on both.\<close>

lemma save_to_csv_ok:
  assumes "to_csv_error disk fn = None"
  shows "save_to_csv disk recs fn lo hi w =
     (Inr (length (frames w)),
      w\<lparr>frames := frames w @ [spec_table recs lo hi],
        files := (files w)(fn \<mapsto>
          Csv [''Accession'', ''Length'', ''Description'']
            (map row_of (filter (in_window lo hi) recs)))\<rparr>)"
  using assms by (simp add: save_to_csv_def collect_eq Let_def spec_table_def)

lemma save_to_csv_raises:
  assumes "to_csv_error disk fn = Some e"
  shows "save_to_csv disk recs fn lo hi w =
     (Inl e, w\<lparr>frames := frames w @ [spec_table recs lo hi]\<rparr>)"
  using assms by (simp add: save_to_csv_def collect_eq Let_def spec_table_def)

lemma save_to_csv_frames:
  "frames (snd (save_to_csv disk recs fn lo hi w)) = frames w @ [spec_table recs lo hi]"
  by (cases "to_csv_error disk fn") (simp_all add: save_to_csv_ok save_to_csv_raises)

lemma save_to_csv_Inr:
  assumes "save_to_csv disk recs fn lo hi w = (Inr df, w')"
  shows "to_csv_error disk fn = None \<and> df = length (frames w) \<and>
    frames w' = frames w @ [spec_table recs lo hi] \<and>
    files w' = (files w)(fn \<mapsto>
      Csv [''Accession'', ''Length'', ''Description'']
        (map row_of (filter (in_window lo hi) recs)))"
proof (cases "to_csv_error disk fn")
  case None
  from assms have "df = length (frames w) \<and> frames w' = frames w @ [spec_table recs lo hi] \<and>
    files w' = (files w)(fn \<mapsto>
      Csv [''Accession'', ''Length'', ''Description'']
        (map row_of (filter (in_window lo hi) recs)))"
    unfolding save_to_csv_ok [OF None] by auto
  with None show ?thesis
    by simp
next
  case (Some e)
  from assms show ?thesis
    unfolding save_to_csv_raises [OF Some] by simp
qed

lemma row_of_examples:
  "row_of rec200 = (''AB000200.1'', 200, ''short record'')"
  "row_of rec1500 = (''AB001500.1'', 1500, ''long record'')"
  "row_of rec800 = (''AB000800.1'', 800, ''medium record'')"
  by (simp_all add: row_of_def rec200_def rec1500_def rec800_def)

lemma in_window_examples:
  "in_window 100 1000 rec200" "\<not> in_window 100 1000 rec1500" "in_window 100 1000 rec800"
  "in_window 200 800 rec200" "\<not> in_window 200 800 rec1500" "in_window 200 800 rec800"
  by (simp_all add: in_window_def rec200_def rec1500_def rec800_def)

lemma world0_simps:
  "console world0 = []" "files world0 = Map.empty" "frames world0 = []" "requests world0 = []"
  "open_figures world0 = 0"
  by (simp_all add: world0_def)

lemma disk_simps:
  "to_csv_error disk_ok path = None" "savefig_error disk_ok path = None"
  "to_csv_error disk_read_only path = Some (OSError path)"
  "savefig_error disk_read_only path = Some (OSError path)"
  by (simp_all add: disk_ok_def disk_read_only_def)

text \<open>
  C1. For every record sequence and every pair of bounds, the table \<^verbatim>\<open>save_to_csv\<close> builds
  holds exactly the records whose length lies between the bounds, both inclusive, each as
  the triple (accession, length, description), in the order of the input; it is the table
  the function returns when the write succeeds.
\<close>

theorem save_to_csv_table:
  "length (frames w) < length (frames (snd (save_to_csv disk recs fn lo hi w))) \<and>
   df_columns (frames (snd (save_to_csv disk recs fn lo hi w)) ! length (frames w)) =
     [''Accession'', ''Length'', ''Description''] \<and>
   df_rows (frames (snd (save_to_csv disk recs fn lo hi w)) ! length (frames w)) =
     map (\<lambda>r. (sr_id r, int (length (sr_seq r)), sr_description r))
       (filter (\<lambda>r. lo \<le> int (length (sr_seq r)) \<and> int (length (sr_seq r)) \<le> hi) recs) \<and>
   (to_csv_error disk fn = None \<longrightarrow>
     (\<exists>df w'. save_to_csv disk recs fn lo hi w = (Inr df, w') \<and> df < length (frames w') \<and>
        df = length (frames w) \<and>
        df_columns (frames w' ! df) = [''Accession'', ''Length'', ''Description''] \<and>
        df_rows (frames w' ! df) =
          map (\<lambda>r. (sr_id r, int (length (sr_seq r)), sr_description r))
            (filter (\<lambda>r. lo \<le> int (length (sr_seq r)) \<and> int (length (sr_seq r)) \<le> hi)
              recs)))"
proof -
  have a: "length (frames w) < length (frames (snd (save_to_csv disk recs fn lo hi w)))"
    by (simp add: save_to_csv_frames)
  have b: "frames (snd (save_to_csv disk recs fn lo hi w)) ! length (frames w) =
      spec_table recs lo hi"
    by (simp add: save_to_csv_frames)
  have c: "df_columns (spec_table recs lo hi) = [''Accession'', ''Length'', ''Description'']"
    by (simp add: spec_table_simps)
  note d = spec_table_rows [of recs lo hi]
  have e: "to_csv_error disk fn = None \<longrightarrow>
     (\<exists>df w'. save_to_csv disk recs fn lo hi w = (Inr df, w') \<and> df < length (frames w') \<and>
        df = length (frames w) \<and>
        df_columns (frames w' ! df) = [''Accession'', ''Length'', ''Description''] \<and>
        df_rows (frames w' ! df) =
          map (\<lambda>r. (sr_id r, int (length (sr_seq r)), sr_description r))
            (filter (\<lambda>r. lo \<le> int (length (sr_seq r)) \<and> int (length (sr_seq r)) \<le> hi)
              recs))"
  proof
    assume "to_csv_error disk fn = None"
    then have "save_to_csv disk recs fn lo hi w =
        (Inr (length (frames w)), snd (save_to_csv disk recs fn lo hi w))"
      by (simp add: save_to_csv_ok)
    with a b c d show "\<exists>df w'. save_to_csv disk recs fn lo hi w = (Inr df, w') \<and>
        df < length (frames w') \<and> df = length (frames w) \<and>
        df_columns (frames w' ! df) = [''Accession'', ''Length'', ''Description''] \<and>
        df_rows (frames w' ! df) =
          map (\<lambda>r. (sr_id r, int (length (sr_seq r)), sr_description r))
            (filter (\<lambda>r. lo \<le> int (length (sr_seq r)) \<and> int (length (sr_seq r)) \<le> hi)
              recs)"
      by (intro exI [of _ "length (frames w)"]
          exI [of _ "snd (save_to_csv disk recs fn lo hi w)"]) simp
  qed
  from a b c d e show ?thesis
    by simp
qed

theorem save_to_csv_table_witness:
  "save_to_csv disk_ok [rec1500, rec800, rec200] ''out.csv'' 200 800 world0 =
     (Inr 0, snd (save_to_csv disk_ok [rec1500, rec800, rec200] ''out.csv'' 200 800 world0)) \<and>
   df_rows (frames (snd (save_to_csv disk_ok [rec1500, rec800, rec200] ''out.csv'' 200 800
       world0)) ! 0) =
     [(''AB000800.1'', 800, ''medium record''), (''AB000200.1'', 200, ''short record'')]"
proof -
  have r: "map (\<lambda>r. (sr_id r, int (length (sr_seq r)), sr_description r))
      (filter (\<lambda>r. 200 \<le> int (length (sr_seq r)) \<and> int (length (sr_seq r)) \<le> 800)
        [rec1500, rec800, rec200]) =
      [(''AB000800.1'', 800, ''medium record''), (''AB000200.1'', 200, ''short record'')]"
    by (simp add: rec200_def rec1500_def rec800_def)
  from save_to_csv_table [of world0 disk_ok "[rec1500, rec800, rec200]" "''out.csv''" 200 800]
  show ?thesis
    unfolding r by (auto simp add: world0_simps disk_simps)
qed




lemma filter_kept_rows:
  assumes "map row_of recs' = map row_of (filter (in_window lo hi) recs)"
  shows "filter (in_window lo hi) recs' = recs'"
proof -
  have "\<forall>x\<in>set (map row_of (filter (in_window lo hi) recs)). lo \<le> fst (snd x) \<and> fst (snd x) \<le> hi"
    by (auto simp add: row_of_def in_window_def)
  with assms have "\<forall>x\<in>set (map row_of recs'). lo \<le> fst (snd x) \<and> fst (snd x) \<le> hi"
    by simp
  then have "\<forall>r\<in>set recs'. in_window lo hi r"
    by (simp add: row_of_def in_window_def)
  then show ?thesis
    by (simp add: filter_id_conv)
qed

text \<open>
  C6. Filtering is idempotent. \<^verbatim>\<open>save_to_csv\<close> reads records and returns a table, so a
  table is filtered again through any record sequence it is the projection of: with the
  same bounds the second table has the same columns and the same rows in the same order
  as the first, and so has the file written.
\<close>

theorem save_to_csv_idempotent:
  assumes "save_to_csv disk recs fn lo hi w = (Inr df, w1)"
    and "map (\<lambda>r. (sr_id r, int (length (sr_seq r)), sr_description r)) recs' =
      df_rows (frames w1 ! df)"
    and "save_to_csv disk' recs' fn' lo hi w1 = (Inr df', w2)"
  shows "frames w2 ! df' = frames w2 ! df \<and> frames w2 ! df = frames w1 ! df \<and>
    files w2 fn' = files w1 fn"
proof -
  have r: "map row_of recs' = map (\<lambda>r. (sr_id r, int (length (sr_seq r)), sr_description r)) recs'"
    by (simp add: row_of_def [abs_def])
  from save_to_csv_Inr [OF assms(1)] have df: "df = length (frames w)"
    and w1: "frames w1 = frames w @ [spec_table recs lo hi]"
    and f1: "files w1 fn = Some (Csv [''Accession'', ''Length'', ''Description'']
        (map row_of (filter (in_window lo hi) recs)))"
    by simp_all
  from df w1 have t1: "frames w1 ! df = spec_table recs lo hi"
    by simp
  with assms(2) r have m: "map row_of recs' = map row_of (filter (in_window lo hi) recs)"
    by (simp add: spec_table_simps)
  then have k: "filter (in_window lo hi) recs' = recs'"
    by (rule filter_kept_rows)
  from k m have t: "spec_table recs' lo hi = spec_table recs lo hi"
    by (simp add: spec_table_def)
  from save_to_csv_Inr [OF assms(3)] have df': "df' = length (frames w1)"
    and w2: "frames w2 = frames w1 @ [spec_table recs' lo hi]"
    and f2: "files w2 fn' = Some (Csv [''Accession'', ''Length'', ''Description'']
        (map row_of (filter (in_window lo hi) recs')))"
    by simp_all
  from df w1 have lt: "df < length (frames w1)" by simp
  from w2 df' have a: "frames w2 ! df' = spec_table recs' lo hi"
    by simp
  from w2 lt have b: "frames w2 ! df = frames w1 ! df"
    by (simp add: nth_append)
  from a b t1 t k m f1 f2 show ?thesis by simp
qed

theorem save_to_csv_idempotent_witness:
  "frames (snd (save_to_csv disk_ok [rec200, rec800] ''b.csv'' 100 1000
       (snd (save_to_csv disk_ok [rec200, rec1500, rec800] ''a.csv'' 100 1000 world0)))) ! 1 =
     frames (snd (save_to_csv disk_ok [rec200, rec800] ''b.csv'' 100 1000
       (snd (save_to_csv disk_ok [rec200, rec1500, rec800] ''a.csv'' 100 1000 world0)))) ! 0 \<and>
   files (snd (save_to_csv disk_ok [rec200, rec800] ''b.csv'' 100 1000
       (snd (save_to_csv disk_ok [rec200, rec1500, rec800] ''a.csv'' 100 1000 world0)))) ''b.csv'' =
     files (snd (save_to_csv disk_ok [rec200, rec1500, rec800] ''a.csv'' 100 1000 world0)) ''a.csv''"
proof -
  define w1 where
    "w1 = snd (save_to_csv disk_ok [rec200, rec1500, rec800] ''a.csv'' 100 1000 world0)"
  define w2 where "w2 = snd (save_to_csv disk_ok [rec200, rec800] ''b.csv'' 100 1000 w1)"
  have len1: "length (frames w1) = 1"
    by (simp add: w1_def save_to_csv_frames world0_simps)
  have 1: "save_to_csv disk_ok [rec200, rec1500, rec800] ''a.csv'' 100 1000 world0 = (Inr 0, w1)"
    by (simp add: w1_def save_to_csv_ok disk_simps world0_simps)
  have 2: "save_to_csv disk_ok [rec200, rec800] ''b.csv'' 100 1000 w1 = (Inr 1, w2)"
    by (simp add: w2_def save_to_csv_ok disk_simps len1)
  have 3: "map (\<lambda>r. (sr_id r, int (length (sr_seq r)), sr_description r)) [rec200, rec800] =
      df_rows (frames w1 ! 0)"
    by (simp add: w1_def save_to_csv_frames world0_simps spec_table_simps in_window_examples
        row_of_def)
  from save_to_csv_idempotent [OF 1 3 2] show ?thesis
    by (simp add: w1_def w2_def)
qed

text \<open>
  C10. When no record has a length within the bounds, and so also when there is no record,
  \<^verbatim>\<open>save_to_csv\<close> still builds a table with the columns Accession, Length, Description
  and no row. The write is attempted as for any other table: when it succeeds, the
  function returns that table and the file holds the header only; the one way for the
  function to fail is for the write itself to raise.
\<close>

theorem save_to_csv_no_match:
  assumes "\<forall>r\<in>set recs. \<not> (lo \<le> int (length (sr_seq r)) \<and> int (length (sr_seq r)) \<le> hi)"
  shows "frames (snd (save_to_csv disk recs fn lo hi w)) ! length (frames w) =
      \<lparr>df_columns = [''Accession'', ''Length'', ''Description''], df_rows = []\<rparr> \<and>
    (to_csv_error disk fn = None \<longrightarrow>
      (\<exists>df w'. save_to_csv disk recs fn lo hi w = (Inr df, w') \<and>
         frames w' ! df =
           \<lparr>df_columns = [''Accession'', ''Length'', ''Description''], df_rows = []\<rparr> \<and>
         files w' fn = Some (Csv [''Accession'', ''Length'', ''Description''] []))) \<and>
    (\<forall>e. fst (save_to_csv disk recs fn lo hi w) = Inl e \<longrightarrow> to_csv_error disk fn = Some e)"
proof -
  from assms have "filter (in_window lo hi) recs = []"
    by (simp add: in_window_def filter_empty_conv)
  then have t: "spec_table recs lo hi =
      \<lparr>df_columns = [''Accession'', ''Length'', ''Description''], df_rows = []\<rparr>"
    and e: "map row_of (filter (in_window lo hi) recs) = []"
    by (simp_all add: spec_table_def)
  have a: "frames (snd (save_to_csv disk recs fn lo hi w)) ! length (frames w) =
      \<lparr>df_columns = [''Accession'', ''Length'', ''Description''], df_rows = []\<rparr>"
    by (simp add: save_to_csv_frames t)
  have b: "to_csv_error disk fn = None \<longrightarrow>
      (\<exists>df w'. save_to_csv disk recs fn lo hi w = (Inr df, w') \<and>
         frames w' ! df =
           \<lparr>df_columns = [''Accession'', ''Length'', ''Description''], df_rows = []\<rparr> \<and>
         files w' fn = Some (Csv [''Accession'', ''Length'', ''Description''] []))"
    by (simp add: save_to_csv_ok t e)
  have c: "\<forall>e. fst (save_to_csv disk recs fn lo hi w) = Inl e \<longrightarrow> to_csv_error disk fn = Some e"
    by (cases "to_csv_error disk fn") (simp_all add: save_to_csv_ok save_to_csv_raises)
  from a b c show ?thesis
    by simp
qed

theorem save_to_csv_no_match_witness:
  "(\<exists>df w'. save_to_csv disk_ok [] ''out.csv'' 100 1000 world0 = (Inr df, w') \<and>
      df_rows (frames w' ! df) = [] \<and>
      files w' ''out.csv'' = Some (Csv [''Accession'', ''Length'', ''Description''] [])) \<and>
   (\<exists>df w'. save_to_csv disk_ok [rec1500] ''out.csv'' 100 1000 world0 = (Inr df, w') \<and>
      df_rows (frames w' ! df) = [] \<and>
      files w' ''out.csv'' = Some (Csv [''Accession'', ''Length'', ''Description''] []))"
proof -
  have a: "\<forall>r\<in>set []. \<not> (100 \<le> int (length (sr_seq r)) \<and> int (length (sr_seq r)) \<le> 1000)"
    by simp
  have b: "\<forall>r\<in>set [rec1500]. \<not> (100 \<le> int (length (sr_seq r)) \<and> int (length (sr_seq r)) \<le> 1000)"
    by (simp add: rec1500_def)
  have d: "to_csv_error disk_ok ''out.csv'' = None"
    by (simp add: disk_simps)
  from save_to_csv_no_match [OF a, of disk_ok "''out.csv''" world0]
    save_to_csv_no_match [OF b, of disk_ok "''out.csv''" world0] d
  show ?thesis by auto
qed

section \<open>Search and fetch\<close>

lemma print_simps:
  "console (print m w) = console w @ [m]" "files (print m w) = files w"
  "frames (print m w) = frames w" "requests (print m w) = requests w"
  "open_figures (print m w) = open_figures w"
  by (simp_all add: print_def)

lemma send_simps:
  "console (send q w) = console w" "files (send q w) = files w"
  "frames (send q w) = frames w" "requests (send q w) = requests w @ [q]"
  "open_figures (send q w) = open_figures w"
  by (simp_all add: send_def)

lemma fetch_calls_simps:
  "fetch_calls (print m w) = fetch_calls w"
  "fetch_calls (send (TaxonomyEfetch taxid) w) = fetch_calls w"
  "fetch_calls (send (NucleotideEsearch term) w) = fetch_calls w"
  "fetch_calls (send (NucleotideEfetch we qk start retmax) w) =
     fetch_calls w @ [NucleotideEfetch we qk start retmax]"
  by (simp_all add: fetch_calls_def print_simps send_simps)




lemma search_try_some:
  assumes "search_try ncbi self taxid w = (Inr (Some n), self', w')"
  shows "n \<noteq> 0 \<and>
    (\<exists>sr c. esearch_reply ncbi (''txid'' @ taxid @ ''[Organism]'') = Inr sr \<and>
       sr ''Count'' = Some c \<and> py_int c = Some n \<and>
       sr ''WebEnv'' \<noteq> None \<and> sr ''QueryKey'' \<noteq> None \<and>
       webenv self' = sr ''WebEnv'' \<and> query_key self' = sr ''QueryKey'') \<and>
    count_attr self' = Some n"
  using assms
  by (auto simp add: search_try_def Let_def
      split: sum.splits list.splits option.splits if_splits)


lemma py_int_examples:
  "py_int ''0'' = Some 0" "py_int ''3'' = Some 3" "py_int ''-1'' = Some (- 1)"
  "py_int ''100'' = Some 100" "py_int ''1000'' = Some 1000"
  by (simp_all add: py_int_def strip_def is_space_def parse_unsigned_def is_digit_def
      digit_val_def max_str_digits_def)




text \<open>
  C4. Without a stored session (the token or the query key is not set) \<^verbatim>\<open>fetch_records\<close>
  returns the empty list for any start offset and any requested maximum: it raises
  nothing, prints its warning and issues no request.
\<close>

theorem fetch_without_session:
  assumes "webenv self = None \<or> query_key self = None"
  shows "fetch_records ncbi self start max_records w = (Inr [], print NoSearchResults w) \<and>
    requests (snd (fetch_records ncbi self start max_records w)) = requests w"
  using assms by (simp add: fetch_records_def print_simps)

theorem fetch_without_session_witness:
  "fetch_records three_records_service retriever0 7 900 world0 =
     (Inr [], print NoSearchResults world0) \<and>
   requests (snd (fetch_records three_records_service retriever0 7 900 world0)) = []"
proof -
  have "webenv retriever0 = None \<or> query_key retriever0 = None"
    by (simp add: retriever0_def)
  from fetch_without_session [OF this, of three_records_service 7 900 world0]
  show ?thesis
    by (simp add: world0_simps print_simps)
qed

text \<open>
  C5. With a session, \<^verbatim>\<open>fetch_records\<close> issues exactly one request, whose batch size is the
  requested maximum when that is at most 500 and is 500 otherwise; what it returns is what
  the service answers to that one request (the empty list when the service fails).
\<close>

theorem fetch_batch_clamped:
  assumes "webenv self = Some we" and "query_key self = Some qk"
  shows "\<exists>batch_size.
    requests (snd (fetch_records ncbi self start max_records w)) =
      requests w @ [NucleotideEfetch we qk start batch_size] \<and>
    batch_size \<le> 500 \<and>
    (max_records \<le> 500 \<longrightarrow> batch_size = max_records) \<and>
    (500 < max_records \<longrightarrow> batch_size = 500) \<and>
    fst (fetch_records ncbi self start max_records w) =
      Inr (case efetch_reply ncbi we qk start batch_size of Inl e \<Rightarrow> [] | Inr recs \<Rightarrow> recs)"
  using assms
  by (auto simp add: fetch_records_def Let_def print_simps send_simps split: sum.splits)

theorem fetch_batch_clamped_witness:
  "requests (snd (fetch_records three_records_service
      \<lparr>webenv = Some ''MCID_1'', query_key = Some ''1'', count_attr = Some 3\<rparr> 0 50 world0)) =
     [NucleotideEfetch ''MCID_1'' ''1'' 0 50] \<and>
   requests (snd (fetch_records three_records_service
      \<lparr>webenv = Some ''MCID_1'', query_key = Some ''1'', count_attr = Some 3\<rparr> 0 501 world0)) =
     [NucleotideEfetch ''MCID_1'' ''1'' 0 500]"
proof -
  let ?self = "\<lparr>webenv = Some ''MCID_1'', query_key = Some ''1'', count_attr = Some 3\<rparr>"
  have a: "webenv ?self = Some ''MCID_1''" and b: "query_key ?self = Some ''1''"
    by simp_all
  from fetch_batch_clamped [OF a b, of three_records_service 0 50 world0]
    fetch_batch_clamped [OF a b, of three_records_service 0 501 world0]
  show ?thesis
    by (auto simp add: world0_simps)
qed

text \<open>
  C9, as stated: the search returns \<open>None\<close> or a strictly positive count. It fails: the
  code tests only \<^verbatim>\<open>count == 0\<close>, so a negative count reported by the service is stored
  and returned.
\<close>

theorem search_taxid_negative_count:
  "fst (search_taxid negative_count_service retriever0 ''9606'' world0) = Inr (Some (- 1)) \<and>
   count_attr (fst (snd (search_taxid negative_count_service retriever0 ''9606'' world0))) =
     Some (- 1)"
  by (simp add: search_taxid_def search_try_def Let_def negative_count_service_def
      three_records_service_def py_int_examples)

text \<open>
  C9, amended. \<^verbatim>\<open>search_taxid\<close> raises nothing and returns either \<open>None\<close> or the count the
  service reported, which is then not zero (so it is strictly positive whenever the
  service reports no negative count); and whenever it returns a count, the session token,
  the query key and the count are stored on the instance, so that the guard of
  \<^verbatim>\<open>fetch_records\<close> is passed right after.
\<close>

theorem search_taxid_result:
  assumes "search_taxid ncbi self taxid w = (res, self', w')"
  shows "res = Inr None \<or>
    (\<exists>n sr c. res = Inr (Some n) \<and> n \<noteq> 0 \<and>
       esearch_reply ncbi (''txid'' @ taxid @ ''[Organism]'') = Inr sr \<and>
       sr ''Count'' = Some c \<and> py_int c = Some n \<and>
       webenv self' = sr ''WebEnv'' \<and> query_key self' = sr ''QueryKey'' \<and>
       count_attr self' = Some n \<and>
       \<not> (webenv self' = None \<or> query_key self' = None))"
proof -
  obtain r s v where t: "search_try ncbi self taxid (print (Searching taxid) w) = (r, s, v)"
    by (cases "search_try ncbi self taxid (print (Searching taxid) w)") auto
  show ?thesis
  proof (cases r)
    case (Inl e)
    with assms t show ?thesis
      by (simp add: search_taxid_def)
  next
    case (Inr x)
    with assms t have eq: "res = Inr x" "self' = s"
      by (simp_all add: search_taxid_def)
    show ?thesis
    proof (cases x)
      case None
      with eq show ?thesis by simp
    next
      case (Some n)
      with t Inr have "search_try ncbi self taxid (print (Searching taxid) w) = (Inr (Some n), s, v)"
        by simp
      from search_try_some [OF this] eq Some show ?thesis
        by auto
    qed
  qed
qed

theorem search_taxid_result_witness:
  "fst (search_taxid three_records_service retriever0 ''9606'' world0) = Inr (Some 3) \<and>
   webenv (fst (snd (search_taxid three_records_service retriever0 ''9606'' world0))) =
     Some ''MCID_1'' \<and>
   query_key (fst (snd (search_taxid three_records_service retriever0 ''9606'' world0))) =
     Some ''1'' \<and>
   count_attr (fst (snd (search_taxid three_records_service retriever0 ''9606'' world0))) =
     Some 3"
proof -
  obtain res self' w' where
    s: "search_taxid three_records_service retriever0 ''9606'' world0 = (res, self', w')"
    by (cases "search_taxid three_records_service retriever0 ''9606'' world0") auto
  have f: "fst (search_taxid three_records_service retriever0 ''9606'' world0) = Inr (Some 3)"
    by (simp add: search_taxid_def search_try_def Let_def three_records_service_def
        py_int_examples)
  with s have res: "res = Inr (Some 3)"
    by simp
  have e: "esearch_reply three_records_service (''txid'' @ ''9606'' @ ''[Organism]'') =
      Inr [''Count'' \<mapsto> ''3'', ''WebEnv'' \<mapsto> ''MCID_1'', ''QueryKey'' \<mapsto> ''1'']"
    by (simp add: three_records_service_def)
  from search_taxid_result [OF s] res e
  have "webenv self' = Some ''MCID_1'' \<and> query_key self' = Some ''1'' \<and> count_attr self' = Some 3"
    by auto
  with s f show ?thesis
    by simp
qed

section \<open>Plotting\<close>

lemma sort_values_desc_sorted:
  "sorted (rev (map (\<lambda>r. fst (snd r)) (sort_values_desc rows)))"
  by (simp add: sort_values_desc_def rev_map)

lemma sort_values_desc_mset:
  "mset (sort_values_desc rows) = mset rows"
  by (simp add: sort_values_desc_def)

text \<open>The two ways out of \<^verbatim>\<open>plot_lengths\<close> for a reference that names a table.\<close>

lemma plot_lengths_ok:
  assumes "df < length (frames w)" and "savefig_error disk output_file = None"
  shows "plot_lengths disk df output_file w =
    (Inr (),
     w\<lparr>frames := frames w @ [(frames w ! df)\<lparr>df_rows := sort_values_desc (df_rows (frames w ! df))\<rparr>],
       files := (files w)(output_file \<mapsto>
         Png \<lparr>fig_x = map fst (sort_values_desc (df_rows (frames w ! df))),
              fig_y = map (\<lambda>r. fst (snd r)) (sort_values_desc (df_rows (frames w ! df))),
              fig_marker = ''o'',
              fig_xlabel = ''GenBank Accession'',
              fig_ylabel = ''Sequence Length'',
              fig_title = ''Filtered Sequence Lengths''\<rparr>)\<rparr>)"
  using assms by (simp add: plot_lengths_def Let_def)

lemma plot_lengths_raises:
  assumes "df < length (frames w)" and "savefig_error disk output_file = Some e"
  shows "plot_lengths disk df output_file w =
    (Inl e,
     w\<lparr>frames := frames w @ [(frames w ! df)\<lparr>df_rows := sort_values_desc (df_rows (frames w ! df))\<rparr>],
       open_figures := open_figures w + 1\<rparr>)"
  using assms by (simp add: plot_lengths_def Let_def)

lemma plot_lengths_frames:
  assumes "df < length (frames w)"
  shows "frames (snd (plot_lengths disk df output_file w)) =
    frames w @ [(frames w ! df)\<lparr>df_rows := sort_values_desc (df_rows (frames w ! df))\<rparr>]"
  using assms
  by (cases "savefig_error disk output_file") (simp_all add: plot_lengths_ok plot_lengths_raises)

lemma plot_lengths_files_other:
  assumes "p \<noteq> output_file"
  shows "files (snd (plot_lengths disk df output_file w)) p = files w p"
  using assms by (simp add: plot_lengths_def Let_def split: option.splits)

text \<open>
  C8. \<^verbatim>\<open>plot_lengths\<close> draws from a copy of the table sorted by length, largest first, and
  leaves the table it was given as it was: the object behind the reference is the same
  after the call (as is every other table that existed), whether or not the figure can be
  saved; the sorted copy is a new object holding the same rows; and the figure, when it is
  saved, shows the lengths of the copy, in descending order.
\<close>

theorem plot_lengths_keeps_table:
  assumes "df < length (frames w)"
  shows "frames (snd (plot_lengths disk df output_file w)) ! df = frames w ! df \<and>
    take (length (frames w)) (frames (snd (plot_lengths disk df output_file w))) = frames w \<and>
    (\<exists>copy.
       frames (snd (plot_lengths disk df output_file w)) = frames w @ [copy] \<and>
       df_columns copy = df_columns (frames w ! df) \<and>
       mset (df_rows copy) = mset (df_rows (frames w ! df)) \<and>
       sorted (rev (map (\<lambda>r. fst (snd r)) (df_rows copy))) \<and>
       (savefig_error disk output_file = None \<longrightarrow>
          fst (plot_lengths disk df output_file w) = Inr () \<and>
          (\<exists>fig. files (snd (plot_lengths disk df output_file w)) output_file = Some (Png fig) \<and>
             fig_x fig = map fst (df_rows copy) \<and>
             fig_y fig = map (\<lambda>r. fst (snd r)) (df_rows copy) \<and>
             fig_title fig = ''Filtered Sequence Lengths'')))"
proof -
  let ?copy = "(frames w ! df)\<lparr>df_rows := sort_values_desc (df_rows (frames w ! df))\<rparr>"
  note f = plot_lengths_frames [OF assms, of disk output_file]
  from f assms have a: "frames (snd (plot_lengths disk df output_file w)) ! df = frames w ! df"
    by (simp add: nth_append)
  from f have b: "take (length (frames w)) (frames (snd (plot_lengths disk df output_file w))) =
      frames w"
    by simp
  have c: "df_columns ?copy = df_columns (frames w ! df) \<and>
      mset (df_rows ?copy) = mset (df_rows (frames w ! df)) \<and>
      sorted (rev (map (\<lambda>r. fst (snd r)) (df_rows ?copy)))"
    by (simp add: sort_values_desc_sorted sort_values_desc_mset)
  have d: "savefig_error disk output_file = None \<longrightarrow>
      fst (plot_lengths disk df output_file w) = Inr () \<and>
      (\<exists>fig. files (snd (plot_lengths disk df output_file w)) output_file = Some (Png fig) \<and>
         fig_x fig = map fst (df_rows ?copy) \<and>
         fig_y fig = map (\<lambda>r. fst (snd r)) (df_rows ?copy) \<and>
         fig_title fig = ''Filtered Sequence Lengths'')"
    using assms by (simp add: plot_lengths_ok)
  from f c d have "\<exists>copy.
       frames (snd (plot_lengths disk df output_file w)) = frames w @ [copy] \<and>
       df_columns copy = df_columns (frames w ! df) \<and>
       mset (df_rows copy) = mset (df_rows (frames w ! df)) \<and>
       sorted (rev (map (\<lambda>r. fst (snd r)) (df_rows copy))) \<and>
       (savefig_error disk output_file = None \<longrightarrow>
          fst (plot_lengths disk df output_file w) = Inr () \<and>
          (\<exists>fig. files (snd (plot_lengths disk df output_file w)) output_file = Some (Png fig) \<and>
             fig_x fig = map fst (df_rows copy) \<and>
             fig_y fig = map (\<lambda>r. fst (snd r)) (df_rows copy) \<and>
             fig_title fig = ''Filtered Sequence Lengths''))"
    by (intro exI [of _ ?copy] conjI) blast+
  with a b show ?thesis
    by blast
qed

theorem plot_lengths_keeps_table_witness:
  "frames (snd (plot_lengths disk_ok 0 ''p.png''
      (world0\<lparr>frames := [\<lparr>df_columns = [''Accession'', ''Length'', ''Description''],
        df_rows = [(''a'', 200, ''x''), (''b'', 800, ''y'')]\<rparr>]\<rparr>))) ! 0 =
     \<lparr>df_columns = [''Accession'', ''Length'', ''Description''],
      df_rows = [(''a'', 200, ''x''), (''b'', 800, ''y'')]\<rparr> \<and>
   frames (snd (plot_lengths disk_read_only 0 ''p.png''
      (world0\<lparr>frames := [\<lparr>df_columns = [''Accession'', ''Length'', ''Description''],
        df_rows = [(''a'', 200, ''x''), (''b'', 800, ''y'')]\<rparr>]\<rparr>))) ! 0 =
     \<lparr>df_columns = [''Accession'', ''Length'', ''Description''],
      df_rows = [(''a'', 200, ''x''), (''b'', 800, ''y'')]\<rparr> \<and>
   df_rows (frames (snd (plot_lengths disk_ok 0 ''p.png''
      (world0\<lparr>frames := [\<lparr>df_columns = [''Accession'', ''Length'', ''Description''],
        df_rows = [(''a'', 200, ''x''), (''b'', 800, ''y'')]\<rparr>]\<rparr>))) ! 1) =
     [(''b'', 800, ''y''), (''a'', 200, ''x'')] \<and>
   fst (plot_lengths disk_ok 0 ''p.png''
      (world0\<lparr>frames := [\<lparr>df_columns = [''Accession'', ''Length'', ''Description''],
        df_rows = [(''a'', 200, ''x''), (''b'', 800, ''y'')]\<rparr>]\<rparr>)) = Inr ()"
proof -
  let ?w = "world0\<lparr>frames := [\<lparr>df_columns = [''Accession'', ''Length'', ''Description''],
        df_rows = [(''a'', 200, ''x''), (''b'', 800, ''y'')]\<rparr>]\<rparr>"
  have l: "0 < length (frames ?w)"
    by simp
  have c: "df_rows (frames (snd (plot_lengths disk_ok 0 ''p.png'' ?w)) ! 1) =
      [(''b'', 800, ''y''), (''a'', 200, ''x'')]"
    by (simp add: plot_lengths_frames sort_values_desc_def)
  from plot_lengths_keeps_table [OF l, of disk_ok "''p.png''"]
  have a: "frames (snd (plot_lengths disk_ok 0 ''p.png'' ?w)) ! 0 = frames ?w ! 0"
    and d: "fst (plot_lengths disk_ok 0 ''p.png'' ?w) = Inr ()"
    by (auto simp add: disk_simps)
  from plot_lengths_keeps_table [OF l, of disk_read_only "''p.png''"]
  have b: "frames (snd (plot_lengths disk_read_only 0 ''p.png'' ?w)) ! 0 = frames ?w ! 0"
    by blast
  from a b c d show ?thesis
    by simp
qed

section \<open>A whole run\<close>

lemma search_three_records:
  "search_taxid three_records_service self taxid w =
     (Inr (Some 3),
      self\<lparr>webenv := Some ''MCID_1'', query_key := Some ''1'', count_attr := Some 3\<rparr>,
      print (Found 3)
        (send (NucleotideEsearch (''txid'' @ taxid @ ''[Organism]''))
          (print (Organism ''Homo sapiens'' taxid)
            (send (TaxonomyEfetch taxid) (print (Searching taxid) w)))))"
  by (simp add: search_taxid_def search_try_def Let_def three_records_service_def
      py_int_examples)

lemma fetch_three_records:
  assumes "webenv self = Some we" and "query_key self = Some qk"
  shows "fetch_records three_records_service self start max_records w =
    (Inr [rec200, rec1500, rec800],
     send (NucleotideEfetch we qk start (min max_records 500)) w)"
  using assms by (simp add: fetch_records_def Let_def three_records_service_def)

text \<open>The run up to the plot, on a disk that takes the CSV file.\<close>

lemma main_three_records:
  assumes "to_csv_error disk ''taxid_9606_filtered.csv'' = None"
  shows "\<exists>w3. frames w3 = [] \<and> files w3 = Map.empty \<and>
     fetch_calls w3 = [NucleotideEfetch ''MCID_1'' ''1'' 0 50] \<and>
     main three_records_service disk email api_key ''9606'' ''100'' ''1000'' world0 =
       (case plot_lengths disk 0 ''taxid_9606_plot.png''
            (print (SavedCsv ''taxid_9606_filtered.csv'')
              (snd (save_to_csv disk [rec200, rec1500, rec800] ''taxid_9606_filtered.csv''
                100 1000 w3))) of
          (Inl e, w6) \<Rightarrow> (Inl e, w6)
        | (Inr u, w6) \<Rightarrow> (Inr (), print (SavedPlot ''taxid_9606_plot.png'') w6))"
proof -
  define wd where "wd = print (Prompt ''Enter maximum sequence length: '')
    (print (Prompt ''Enter minimum sequence length: '')
      (print (Prompt ''Enter taxonomic ID (taxid) of the organism: '')
        (print (Prompt ''Enter your NCBI API key: '')
          (print (Prompt ''Enter your email address for NCBI: '') world0))))"
  define w1 where "w1 = snd (init email api_key wd)"
  define w2 where "w2 = print (Found 3)
        (send (NucleotideEsearch (''txid'' @ ''9606'' @ ''[Organism]''))
          (print (Organism ''Homo sapiens'' ''9606'')
            (send (TaxonomyEfetch ''9606'') (print (Searching ''9606'') w1))))"
  define w3 where "w3 = send (NucleotideEfetch ''MCID_1'' ''1'' 0 (min 50 500)) (print Fetching w2)"
  have w1: "frames w1 = [] \<and> files w1 = Map.empty \<and> fetch_calls w1 = []"
    by (simp add: w1_def init_def wd_def print_simps world0_simps fetch_calls_def)
  then have w3: "frames w3 = [] \<and> files w3 = Map.empty \<and>
      fetch_calls w3 = [NucleotideEfetch ''MCID_1'' ''1'' 0 50]"
    by (simp add: w3_def w2_def print_simps send_simps fetch_calls_simps)
  have "main three_records_service disk email api_key ''9606'' ''100'' ''1000'' world0 =
       (case plot_lengths disk 0 ''taxid_9606_plot.png''
            (print (SavedCsv ''taxid_9606_filtered.csv'')
              (snd (save_to_csv disk [rec200, rec1500, rec800] ''taxid_9606_filtered.csv''
                100 1000 w3))) of
          (Inl e, w6) \<Rightarrow> (Inl e, w6)
        | (Inr u, w6) \<Rightarrow> (Inr (), print (SavedPlot ''taxid_9606_plot.png'') w6))"
    using assms
    by (simp add: main_def Let_def init_def py_int_examples search_three_records
        fetch_three_records save_to_csv_ok print_simps send_simps world0_simps
        w3_def w2_def w1_def wd_def)
  with w3 show ?thesis
    by blast
qed

lemma sort_values_desc_example:
  "sort_values_desc [(''AB000200.1'', 200, ''short record''), (''AB000800.1'', 800, ''medium record'')] =
     [(''AB000800.1'', 800, ''medium record''), (''AB000200.1'', 200, ''short record'')]"
  by (simp add: sort_values_desc_def)

lemma three_records_table:
  "spec_table [rec200, rec1500, rec800] 100 1000 =
     \<lparr>df_columns = [''Accession'', ''Length'', ''Description''],
      df_rows = [(''AB000200.1'', 200, ''short record''), (''AB000800.1'', 800, ''medium record'')]\<rparr>"
  by (simp add: spec_table_def in_window_examples row_of_examples)

text \<open>
  C7. Records of lengths 200, 1500 and 800, fetched in that order, with bounds 100 and
  1000: the table holds the record of length 200 and then the one of length 800, not
  the one of length 1500, and the CSV file, on a disk that takes it, is the header and two
  data rows. This holds for \<^verbatim>\<open>save_to_csv\<close> in any world and, in a whole run of \<^verbatim>\<open>main\<close>
  against a service that returns these three records, for the file
  \<^verbatim>\<open>taxid_9606_filtered.csv\<close>; when the plot can be saved as well, the run ends normally
  and has saved it.
\<close>

theorem three_records_example:
  "df_rows (frames (snd (save_to_csv disk [rec200, rec1500, rec800] fn 100 1000 w)) !
       length (frames w)) =
     [(''AB000200.1'', 200, ''short record''), (''AB000800.1'', 800, ''medium record'')] \<and>
   (to_csv_error disk fn = None \<longrightarrow>
     (\<exists>df w'. save_to_csv disk [rec200, rec1500, rec800] fn 100 1000 w = (Inr df, w') \<and>
        df_rows (frames w' ! df) =
          [(''AB000200.1'', 200, ''short record''), (''AB000800.1'', 800, ''medium record'')] \<and>
        (''AB001500.1'', 1500, ''long record'') \<notin> set (df_rows (frames w' ! df)) \<and>
        files w' fn = Some (Csv [''Accession'', ''Length'', ''Description'']
          [(''AB000200.1'', 200, ''short record''), (''AB000800.1'', 800, ''medium record'')]))) \<and>
   int (length (sr_seq rec200)) = 200 \<and> int (length (sr_seq rec1500)) = 1500 \<and>
   int (length (sr_seq rec800)) = 800 \<and>
   (to_csv_error disk ''taxid_9606_filtered.csv'' = None \<longrightarrow>
      files (snd (main three_records_service disk email api_key ''9606'' ''100'' ''1000'' world0))
          ''taxid_9606_filtered.csv'' =
        Some (Csv [''Accession'', ''Length'', ''Description'']
          [(''AB000200.1'', 200, ''short record''), (''AB000800.1'', 800, ''medium record'')]) \<and>
      (savefig_error disk ''taxid_9606_plot.png'' = None \<longrightarrow>
         fst (main three_records_service disk email api_key ''9606'' ''100'' ''1000'' world0) =
           Inr () \<and>
         (\<exists>fig. files (snd (main three_records_service disk email api_key ''9606'' ''100''
               ''1000'' world0)) ''taxid_9606_plot.png'' = Some (Png fig) \<and>
            fig_x fig = [''AB000800.1'', ''AB000200.1''] \<and> fig_y fig = [800, 200])))"
proof -
  let ?csv = "Csv [''Accession'', ''Length'', ''Description'']
      [(''AB000200.1'', 200, ''short record''), (''AB000800.1'', 800, ''medium record'')]"
  let ?main = "main three_records_service disk email api_key ''9606'' ''100'' ''1000'' world0"
  have a: "df_rows (frames (snd (save_to_csv disk [rec200, rec1500, rec800] fn 100 1000 w)) !
       length (frames w)) =
     [(''AB000200.1'', 200, ''short record''), (''AB000800.1'', 800, ''medium record'')]"
    by (simp add: save_to_csv_frames three_records_table)
  have b: "to_csv_error disk fn = None \<longrightarrow>
     (\<exists>df w'. save_to_csv disk [rec200, rec1500, rec800] fn 100 1000 w = (Inr df, w') \<and>
        df_rows (frames w' ! df) =
          [(''AB000200.1'', 200, ''short record''), (''AB000800.1'', 800, ''medium record'')] \<and>
        (''AB001500.1'', 1500, ''long record'') \<notin> set (df_rows (frames w' ! df)) \<and>
        files w' fn = Some ?csv)"
    by (simp add: save_to_csv_ok three_records_table in_window_examples row_of_examples)
  have c: "int (length (sr_seq rec200)) = 200 \<and> int (length (sr_seq rec1500)) = 1500 \<and>
      int (length (sr_seq rec800)) = 800"
    by (simp add: rec200_def rec1500_def rec800_def)
  have d: "to_csv_error disk ''taxid_9606_filtered.csv'' = None \<longrightarrow>
      files (snd ?main) ''taxid_9606_filtered.csv'' = Some ?csv \<and>
      (savefig_error disk ''taxid_9606_plot.png'' = None \<longrightarrow>
         fst ?main = Inr () \<and>
         (\<exists>fig. files (snd ?main) ''taxid_9606_plot.png'' = Some (Png fig) \<and>
            fig_x fig = [''AB000800.1'', ''AB000200.1''] \<and> fig_y fig = [800, 200]))"
  proof
    assume ok: "to_csv_error disk ''taxid_9606_filtered.csv'' = None"
    define w5 where "w5 = (\<lambda>w3. print (SavedCsv ''taxid_9606_filtered.csv'')
        (snd (save_to_csv disk [rec200, rec1500, rec800] ''taxid_9606_filtered.csv''
          100 1000 w3)))"
    from main_three_records [OF ok, of email api_key]
    obtain w3 where w3: "frames w3 = []" "files w3 = Map.empty"
      and m: "?main =
        (case plot_lengths disk 0 ''taxid_9606_plot.png'' (w5 w3) of
           (Inl e, w6) \<Rightarrow> (Inl e, w6)
         | (Inr u, w6) \<Rightarrow> (Inr (), print (SavedPlot ''taxid_9606_plot.png'') w6))"
      unfolding w5_def by blast
    have f5: "files (w5 w3) ''taxid_9606_filtered.csv'' = Some ?csv"
      by (simp add: w5_def print_simps save_to_csv_ok [OF ok] in_window_examples row_of_examples)
    have fr5: "frames (w5 w3) = [spec_table [rec200, rec1500, rec800] 100 1000]"
      by (simp add: w5_def print_simps save_to_csv_frames w3)
    have ne: "''taxid_9606_filtered.csv'' \<noteq> ''taxid_9606_plot.png''"
      by simp
    have "files (snd (plot_lengths disk 0 ''taxid_9606_plot.png'' (w5 w3)))
        ''taxid_9606_filtered.csv'' = Some ?csv"
      using plot_lengths_files_other [OF ne, of disk 0 "w5 w3"] f5 by simp
    then have csv: "files (snd ?main) ''taxid_9606_filtered.csv'' = Some ?csv"
      unfolding m
      by (cases "plot_lengths disk 0 ''taxid_9606_plot.png'' (w5 w3)")
        (auto simp add: print_simps split: sum.splits)
    have plot: "savefig_error disk ''taxid_9606_plot.png'' = None \<longrightarrow>
         fst ?main = Inr () \<and>
         (\<exists>fig. files (snd ?main) ''taxid_9606_plot.png'' = Some (Png fig) \<and>
            fig_x fig = [''AB000800.1'', ''AB000200.1''] \<and> fig_y fig = [800, 200])"
    proof
      assume sf: "savefig_error disk ''taxid_9606_plot.png'' = None"
      have l: "0 < length (frames (w5 w3))"
        by (simp add: fr5)
      show "fst ?main = Inr () \<and>
         (\<exists>fig. files (snd ?main) ''taxid_9606_plot.png'' = Some (Png fig) \<and>
            fig_x fig = [''AB000800.1'', ''AB000200.1''] \<and> fig_y fig = [800, 200])"
        unfolding m plot_lengths_ok [OF l sf]
        by (simp add: print_simps fr5 three_records_table sort_values_desc_example)
    qed
    from csv plot show "files (snd ?main) ''taxid_9606_filtered.csv'' = Some ?csv \<and>
      (savefig_error disk ''taxid_9606_plot.png'' = None \<longrightarrow>
         fst ?main = Inr () \<and>
         (\<exists>fig. files (snd ?main) ''taxid_9606_plot.png'' = Some (Png fig) \<and>
            fig_x fig = [''AB000800.1'', ''AB000200.1''] \<and> fig_y fig = [800, 200]))"
      by (rule conjI)
  qed
  from a b c d show ?thesis
    by (intro conjI) blast+
qed

theorem three_records_example_witness:
  "files (snd (main three_records_service disk_ok ''a@b.org'' ''key'' ''9606'' ''100'' ''1000''
       world0)) ''taxid_9606_filtered.csv'' =
     Some (Csv [''Accession'', ''Length'', ''Description'']
       [(''AB000200.1'', 200, ''short record''), (''AB000800.1'', 800, ''medium record'')]) \<and>
   fst (main three_records_service disk_ok ''a@b.org'' ''key'' ''9606'' ''100'' ''1000'' world0) =
     Inr () \<and>
   files (snd (main three_records_service disk_read_only ''a@b.org'' ''key'' ''9606'' ''100''
       ''1000'' world0)) ''taxid_9606_filtered.csv'' = None"
proof -
  have n: "files (snd (main three_records_service disk_read_only ''a@b.org'' ''key'' ''9606''
      ''100'' ''1000'' world0)) ''taxid_9606_filtered.csv'' = None"
    by (simp add: main_def Let_def init_def py_int_examples search_three_records
        fetch_three_records save_to_csv_raises disk_simps print_simps send_simps world0_simps)
  from three_records_example [of disk_ok "''out.csv''" world0 "''a@b.org''" "''key''"] n
  show ?thesis
    by (simp add: disk_simps)
qed

end
